theory Spec2Isabelle
  imports Main
begin

section \<open>The compound-component example: data model\<close>

text \<open>
  The embedding follows \<^verbatim>\<open>componets/PostCardComponent.tsx\<close>,
  \<^verbatim>\<open>hooks/usePostCardContext\<close> and \<^verbatim>\<open>anti-components/AntiPostCard.tsx\<close>.

  The TypeScript field \<^verbatim>\<open>id\<close> is written \<open>post_id\<close> (of a post) and \<open>user_id\<close>
  (of a user), since \<open>id\<close> is HOL's identity function. A \<^verbatim>\<open>number\<close> used as an
  identifier is an \<open>int\<close>. The optional field \<^verbatim>\<open>isOnProfilePage?: boolean\<close> is a
  \<open>bool option\<close>, \<open>None\<close> standing for an omitted (\<^verbatim>\<open>undefined\<close>) field.
\<close>

record User =
  user_id :: int
  name :: string

record PostCardProps =
  post_id :: int
  title :: string
  content :: string
  user :: User
  isOnProfilePage :: "bool option"

text \<open>
  \<^verbatim>\<open>AntiPostCardProps\<close> declares the same fields as \<^verbatim>\<open>PostCardProps\<close> and one
  more, the mandatory \<^verbatim>\<open>shouldDisplayButtons: boolean\<close>.
\<close>

record AntiPostCardProps = PostCardProps +
  shouldDisplayButtons :: bool

record PostCardContextType =
  post :: PostCardProps

text \<open>A thrown \<^verbatim>\<open>new Error(message)\<close>.\<close>

datatype error = Error string

text \<open>
  What React DOM mounts: host elements (tag, \<^verbatim>\<open>className\<close>, children) and text
  nodes.
\<close>

datatype dom = Element string string "dom list" | Text string

text \<open>
  What a caller composes: host elements, string and number children, \<^verbatim>\<open>null\<close>,
  and elements of the components of this example. The five leaves
  \<^verbatim>\<open>PostCardComponent.Id\<close>, \<^verbatim>\<open>.Title\<close>, \<^verbatim>\<open>.Content\<close>, \<^verbatim>\<open>.Author\<close> and
  \<^verbatim>\<open>.Actions\<close> carry the names of the functions assigned to them.
\<close>

datatype jsx =
    Host string string "jsx list"
  | JText string
  | JNumber int
  | JNull
  | PostCardComponent PostCardProps "jsx list"
  | PostCardId
  | PostCardTitle
  | PostCardContent
  | PostCardAuthor
  | PostCardActions
  | AntiPostCard AntiPostCardProps

section \<open>JavaScript and React primitives\<close>

text \<open>Truthiness of a value of type \<^verbatim>\<open>boolean | undefined\<close>.\<close>

fun truthy :: "bool option \<Rightarrow> bool" where
  "truthy None = False"
| "truthy (Some b) = b"

text \<open>
  A number child is mounted as the text of its decimal representation
  (\<^verbatim>\<open>'' + n\<close>), for the integers an identifier ranges over.
\<close>

definition digit :: "nat \<Rightarrow> char" where
  "digit d = ''0123456789'' ! d"

fun showNat :: "nat \<Rightarrow> string" where
  "showNat n = (if n < 10 then [digit n] else showNat (n div 10) @ [digit (n mod 10)])"

declare showNat.simps [simp del]

definition showNumber :: "int \<Rightarrow> string" where
  "showNumber n = (if n < 0 then CHR ''-'' # showNat (nat (- n)) else showNat (nat n))"

text \<open>
  \<^verbatim>\<open>{cond && <element/>}\<close>: the element when \<^verbatim>\<open>cond\<close> is true, else the value
  \<^verbatim>\<open>false\<close>, which mounts nothing.
\<close>

definition andAlso :: "bool \<Rightarrow> dom list \<Rightarrow> dom list" where
  "andAlso cond element = (if cond then element else [])"

text \<open>The text a mounted node shows: its text nodes, in document order.\<close>

fun textContent :: "dom \<Rightarrow> string" where
  "textContent (Text s) = s"
| "textContent (Element tag cls kids) = concat (map textContent kids)"

fun children :: "dom \<Rightarrow> dom list" where
  "children (Text s) = []"
| "children (Element tag cls kids) = kids"

section \<open>The usage guard\<close>

text \<open>
  \<^verbatim>\<open>usePostCardContext\<close>. Its argument is what \<^verbatim>\<open>React.useContext(PostCardContext)\<close>
  returns at the place of the call: the value of the nearest enclosing
  \<^verbatim>\<open>PostCardContext.Provider\<close>, or the default \<^verbatim>\<open>undefined\<close> (\<open>None\<close>) of
  \<^verbatim>\<open>React.createContext\<close>. A context value is an object, hence truthy.
\<close>

definition usePostCardContext :: "PostCardContextType option \<Rightarrow> error + PostCardContextType" where
  "usePostCardContext context =
     (case context of
        None \<Rightarrow> Inl (Error ''PostCardComponent.Title must be used within a PostCardComponent'')
      | Some c \<Rightarrow> Inr c)"

section \<open>Rendering\<close>

text \<open>
  \<open>render ctx e\<close> mounts the element \<open>e\<close> where the ambient context value is \<open>ctx\<close>;
  an exception thrown by a component aborts the render (\<open>Inl\<close>). Each equation for a
  component is the body of that component's function. A host element is mounted as
  React DOM mounts a well-formed one (\<open>wellFormed\<close> below); React DOM itself throws on
  an ill-formed one, which \<open>render\<close> does not follow.
\<close>

fun render :: "PostCardContextType option \<Rightarrow> jsx \<Rightarrow> error + dom list"
  and renderChildren :: "PostCardContextType option \<Rightarrow> jsx list \<Rightarrow> error + dom list" where
  "render ctx (Host tag cls kids) =
     (case renderChildren ctx kids of
        Inl e \<Rightarrow> Inl e
      | Inr ds \<Rightarrow> Inr [Element tag cls ds])"
| "render ctx (JText s) = Inr [Text s]"
| "render ctx (JNumber n) = Inr [Text (showNumber n)]"
| "render ctx JNull = Inr []"
| "render ctx (PostCardComponent p kids) =
     (case renderChildren (Some \<lparr>post = p\<rparr>) kids of
        Inl e \<Rightarrow> Inl e
      | Inr ds \<Rightarrow>
          Inr [Element ''div''
                 ''w-full bg-white rounded-lg shadow-md hover:shadow-lg transition-shadow duration-300 overflow-hidden border border-gray-300''
                 ds])"
| "render ctx PostCardId =
     (case usePostCardContext ctx of
        Inl e \<Rightarrow> Inl e
      | Inr c \<Rightarrow>
          Inr [Element ''div'' ''bg-gray-200 h-32 flex items-center justify-center''
                 [Element ''span'' ''text-black font-bold text-center block''
                    [Text (showNumber (post_id (post c)))]]])"
| "render ctx PostCardTitle =
     (case usePostCardContext ctx of
        Inl e \<Rightarrow> Inl e
      | Inr c \<Rightarrow>
          Inr [Element ''h2'' ''text-2xl font-bold text-black mb-2'' [Text (title (post c))]])"
| "render ctx PostCardContent =
     (case usePostCardContext ctx of
        Inl e \<Rightarrow> Inl e
      | Inr c \<Rightarrow>
          Inr [Element ''p'' ''text-gray-700 text-sm mb-4 leading-relaxed''
                 [Text (content (post c))]])"
| "render ctx PostCardAuthor =
     (case usePostCardContext ctx of
        Inl e \<Rightarrow> Inl e
      | Inr c \<Rightarrow>
          if truthy (isOnProfilePage (post c)) then Inr []
          else
            Inr [Element ''p'' ''text-xs text-gray-600 font-medium mb-6''
                   [Text ''By '',
                    Element ''span'' ''font-semibold text-black'' [Text (name (user (post c)))]]])"
| "render ctx PostCardActions =
     Inr [Element ''div'' ''flex gap-3''
            [Element ''button''
               ''flex-1 bg-black text-white px-4 py-2 rounded-md font-medium hover:bg-gray-800 transition-colors duration-200''
               [Text ''Read More''],
             Element ''button''
               ''flex-1 border-2 border-black text-black px-4 py-2 rounded-md font-medium hover:bg-gray-100 transition-colors duration-200''
               [Text ''Like'']]]"
| "render ctx (AntiPostCard p) =
     Inr [Element ''div''
            ''w-full bg-white rounded-lg shadow-md hover:shadow-lg transition-shadow duration-300 overflow-hidden border border-gray-300''
            [Element ''div'' ''bg-gray-200 h-32 flex items-center justify-center''
               [Element ''span'' ''text-black font-bold text-center block''
                  [Text (showNumber (post_id p))]],
             Element ''div'' ''p-6''
               ([Element ''h2'' ''text-2xl font-bold text-black mb-2'' [Text (title p)],
                 Element ''p'' ''text-gray-700 text-sm mb-4 leading-relaxed'' [Text (content p)]]
                @ andAlso (\<not> truthy (isOnProfilePage p))
                    [Element ''p'' ''text-xs text-gray-600 font-medium mb-6''
                       [Text ''By '',
                        Element ''span'' ''font-semibold text-black'' [Text (name (user p))]]]
                @ andAlso (shouldDisplayButtons p)
                    [Element ''div'' ''flex gap-3''
                       [Element ''button''
                          ''flex-1 bg-black text-white px-4 py-2 rounded-md font-medium hover:bg-gray-800 transition-colors duration-200''
                          [Text ''Read More''],
                        Element ''button''
                          ''flex-1 border-2 border-black text-black px-4 py-2 rounded-md font-medium hover:bg-gray-100 transition-colors duration-200''
                          [Text ''Like'']]])]]"
| "renderChildren ctx [] = Inr []"
| "renderChildren ctx (k # ks) =
     (case render ctx k of
        Inl e \<Rightarrow> Inl e
      | Inr d \<Rightarrow>
          (case renderChildren ctx ks of
             Inl e \<Rightarrow> Inl e
           | Inr ds \<Rightarrow> Inr (d @ ds)))"

section \<open>The page\<close>

text \<open>
  \<^verbatim>\<open>App\<close>, in the version that passes \<^verbatim>\<open>shouldDisplayButtons\<close> as
  \<^verbatim>\<open>AntiPostCardProps\<close> requires: two \<^verbatim>\<open>AntiPostCard\<close>s side by side, then two
  \<^verbatim>\<open>PostCardComponent\<close>s side by side. The commented-out leaves are absent.
\<close>

definition App :: jsx where
  "App =
     Host ''div'' ''min-h-screen bg-white flex flex-col items-center justify-center p-8''
       [Host ''div'' ''text-center mb-12''
          [Host ''h1'' ''text-5xl font-bold text-black mb-2 text-center''
             [JText ''Compound Components'']],
        Host ''div'' ''w-full max-w-4xl flex gap-6''
          [Host ''div'' ''w-full max-w-md''
             [AntiPostCard
                \<lparr>post_id = 1,
                 title = ''Anti Design Pattern Component 1'',
                 content = ''This demonstrates an anti-pattern approach to component composition. Learn why this pattern should be avoided in favor of compound components.'',
                 user = \<lparr>user_id = 1, name = ''Amin Tai''\<rparr>,
                 isOnProfilePage = Some False,
                 shouldDisplayButtons = False\<rparr>],
           Host ''div'' ''w-full max-w-md''
             [AntiPostCard
                \<lparr>post_id = 2,
                 title = ''Anti Design Pattern Component 2'',
                 content = ''This demonstrates an anti-pattern approach to component composition. Learn why this pattern should be avoided in favor of compound components.'',
                 user = \<lparr>user_id = 2, name = ''Amin Tai''\<rparr>,
                 isOnProfilePage = Some True,
                 shouldDisplayButtons = True\<rparr>]],
        Host ''div'' ''w-full max-w-md'' [],
        Host ''div'' ''w-full max-w-4xl flex gap-6 mt-10''
          [Host ''div'' ''w-full max-w-md''
             [PostCardComponent
                \<lparr>post_id = 3,
                 title = ''Compound Components Pattern Component 1'',
                 content = ''The recommended approach using compound components pattern. This provides better composition, flexibility, and separation of concerns for building reusable UI components.'',
                 user = \<lparr>user_id = 3, name = ''Amin Tai''\<rparr>,
                 isOnProfilePage = Some False\<rparr>
                [PostCardId,
                 Host ''div'' ''p-6'' [PostCardTitle, PostCardContent, PostCardActions]]],
           Host ''div'' ''w-full max-w-md''
             [PostCardComponent
                \<lparr>post_id = 4,
                 title = ''Compound Components Pattern Component 2'',
                 content = ''The recommended approach using compound components pattern. This provides better composition, flexibility, and separation of concerns for building reusable UI components.'',
                 user = \<lparr>user_id = 4, name = ''Amin Tai''\<rparr>,
                 isOnProfilePage = Some False\<rparr>
                [PostCardId,
                 Host ''div'' ''p-6'' [PostCardTitle, PostCardContent, PostCardAuthor]]]]]"

section \<open>Observing a render\<close>

text \<open>
  The author line and the pair of action buttons, as \<^verbatim>\<open>PostCardAuthor\<close>,
  \<^verbatim>\<open>PostCardActions\<close> and \<^verbatim>\<open>AntiPostCard\<close> all write them.
\<close>

definition authorLine :: "string \<Rightarrow> dom" where
  "authorLine n =
     Element ''p'' ''text-xs text-gray-600 font-medium mb-6''
       [Text ''By '', Element ''span'' ''font-semibold text-black'' [Text n]]"

definition actionButtons :: dom where
  "actionButtons =
     Element ''div'' ''flex gap-3''
       [Element ''button''
          ''flex-1 bg-black text-white px-4 py-2 rounded-md font-medium hover:bg-gray-800 transition-colors duration-200''
          [Text ''Read More''],
        Element ''button''
          ''flex-1 border-2 border-black text-black px-4 py-2 rounded-md font-medium hover:bg-gray-100 transition-colors duration-200''
          [Text ''Like'']]"

text \<open>Every node of a mounted tree, in document order.\<close>

fun descendants :: "dom \<Rightarrow> dom list" where
  "descendants (Text s) = [Text s]"
| "descendants (Element tag cls kids) = Element tag cls kids # concat (map descendants kids)"

text \<open>\<open>mounts ctx e d\<close>: rendering \<open>e\<close> succeeds and mounts the node \<open>d\<close> somewhere.\<close>

definition mounts :: "PostCardContextType option \<Rightarrow> jsx \<Rightarrow> dom \<Rightarrow> bool" where
  "mounts ctx e d =
     (case render ctx e of
        Inl err \<Rightarrow> False
      | Inr out \<Rightarrow> d \<in> set (concat (map descendants out)))"

text \<open>
  The nodes an element mounts below a provider whose value is \<open>c\<close> (rendering there
  never throws, see \<open>render_Some\<close>).
\<close>

definition mounted :: "PostCardContextType \<Rightarrow> jsx \<Rightarrow> dom list" where
  "mounted c e = (case render (Some c) e of Inl err \<Rightarrow> [] | Inr out \<Rightarrow> out)"

text \<open>
  \<open>exposed e\<close>: one of the four leaves that call \<^verbatim>\<open>usePostCardContext\<close> occurs in \<open>e\<close>
  with no \<^verbatim>\<open>PostCardComponent\<close> above it.
\<close>

fun exposed :: "jsx \<Rightarrow> bool"
  and exposedChildren :: "jsx list \<Rightarrow> bool" where
  "exposed (Host tag cls kids) = exposedChildren kids"
| "exposed (JText s) = False"
| "exposed (JNumber n) = False"
| "exposed JNull = False"
| "exposed (PostCardComponent p kids) = False"
| "exposed PostCardId = True"
| "exposed PostCardTitle = True"
| "exposed PostCardContent = True"
| "exposed PostCardAuthor = True"
| "exposed PostCardActions = False"
| "exposed (AntiPostCard p) = False"
| "exposedChildren [] = False"
| "exposedChildren (k # ks) = (exposed k \<or> exposedChildren ks)"

text \<open>
  Host markup that React DOM accepts. It throws on a tag name that is no element
  name, on a void element given children, and on a \<^verbatim>\<open>textarea\<close> given more than
  one child. \<open>validTagName\<close> is the lower-case names JSX writes for host elements:
  a letter, then letters, digits and hyphens.
\<close>

definition voidElementTags :: "string list" where
  "voidElementTags =
     [''area'', ''base'', ''br'', ''col'', ''embed'', ''hr'', ''img'', ''input'', ''keygen'',
      ''link'', ''menuitem'', ''meta'', ''param'', ''source'', ''track'', ''wbr'']"

definition validTagName :: "string \<Rightarrow> bool" where
  "validTagName tag =
     (case tag of
        [] \<Rightarrow> False
      | c # cs \<Rightarrow>
          c \<in> set ''abcdefghijklmnopqrstuvwxyz''
          \<and> list_all (\<lambda>d. d \<in> set ''abcdefghijklmnopqrstuvwxyz0123456789-'') cs)"

fun wellFormed :: "jsx \<Rightarrow> bool"
  and wellFormedChildren :: "jsx list \<Rightarrow> bool" where
  "wellFormed (Host tag cls kids) =
     (validTagName tag
      \<and> (tag \<in> set voidElementTags \<longrightarrow> kids = [])
      \<and> (tag = ''textarea'' \<longrightarrow> length kids \<le> 1)
      \<and> wellFormedChildren kids)"
| "wellFormed (JText s) = True"
| "wellFormed (JNumber n) = True"
| "wellFormed JNull = True"
| "wellFormed (PostCardComponent p kids) = wellFormedChildren kids"
| "wellFormed PostCardId = True"
| "wellFormed PostCardTitle = True"
| "wellFormed PostCardContent = True"
| "wellFormed PostCardAuthor = True"
| "wellFormed PostCardActions = True"
| "wellFormed (AntiPostCard p) = True"
| "wellFormedChildren [] = True"
| "wellFormedChildren (k # ks) = (wellFormed k \<and> wellFormedChildren ks)"

section \<open>Properties of rendering\<close>

subsection \<open>Below a provider nothing throws\<close>

lemma render_Some:
  "\<exists>out. render (Some c) e = Inr out"
  "\<exists>out. renderChildren (Some c) es = Inr out"
  by (induction "Some c" e and "Some c" es arbitrary: c and c rule: render_renderChildren.induct)
     (auto simp: usePostCardContext_def)

lemma render_mounted: "render (Some c) e = Inr (mounted c e)"
  using render_Some(1) [of c e] by (auto simp: mounted_def)

lemma renderChildren_mounted:
  "renderChildren (Some c) es = Inr (concat (map (mounted c) es))"
  by (induction es) (simp_all add: render_mounted)

lemma render_Some_not_Inl [simp]:
  "render (Some c) e \<noteq> Inl err" "renderChildren (Some c) es \<noteq> Inl err"
  by (simp_all add: render_mounted renderChildren_mounted)

lemma mounted_markup:
  "mounted c (Host tag cls es) = [Element tag cls (concat (map (mounted c) es))]"
  "mounted c (JText s) = [Text s]"
  by (simp_all add: mounted_def renderChildren_mounted)

subsection \<open>Outside every provider, rendering throws exactly at an exposed leaf\<close>

lemma render_None_cases:
  "(case render None e of
      Inl err \<Rightarrow> exposed e \<and> err = Error ''PostCardComponent.Title must be used within a PostCardComponent''
    | Inr out \<Rightarrow> \<not> exposed e)"
  "(case renderChildren None es of
      Inl err \<Rightarrow> exposedChildren es \<and> err = Error ''PostCardComponent.Title must be used within a PostCardComponent''
    | Inr out \<Rightarrow> \<not> exposedChildren es)"
  by (induction e and es rule: exposed_exposedChildren.induct)
     (auto simp: usePostCardContext_def split: sum.splits)

lemma render_None_Inl:
  "(render None e = Inl err) = (exposed e \<and> err = Error ''PostCardComponent.Title must be used within a PostCardComponent'')"
  using render_None_cases(1) [of e] by (auto split: sum.splits)

lemma render_Inl:
  "render ctx e = Inl err \<Longrightarrow> ctx = None \<and> exposed e \<and> usePostCardContext ctx = Inl err"
  by (cases ctx) (simp_all add: render_None_Inl usePostCardContext_def)

lemma showNumber_3: "showNumber 3 = ''3''"
  by (simp add: showNumber_def showNat.simps digit_def)

lemma showNumber_4: "showNumber 4 = ''4''"
  by (simp add: showNumber_def showNat.simps digit_def)

subsection \<open>The two cards of the page\<close>

lemma App_cards:
  "\<exists>heading antis spacer card3 body3 card4 body4.
     render None App =
       Inr [Element ''div'' ''min-h-screen bg-white flex flex-col items-center justify-center p-8''
              [heading, antis, spacer,
               Element ''div'' ''w-full max-w-4xl flex gap-6 mt-10''
                 [Element ''div'' ''w-full max-w-md'' [card3],
                  Element ''div'' ''w-full max-w-md'' [card4]]]]
     \<and> map textContent (children card3) = [''3'', body3]
     \<and> map textContent (children card4) = [''4'', body4]"
  by (simp add: App_def usePostCardContext_def showNumber_3 showNumber_4 andAlso_def)

section \<open>The claims\<close>

text \<open>
  C1. The code breaks the claim at the actions leaf. Rendered with no
  \<^verbatim>\<open>PostCardComponent\<close> above it, \<^verbatim>\<open>PostCardActions\<close>, which never calls
  \<^verbatim>\<open>usePostCardContext\<close>, throws nothing and renders its two buttons, while each of
  its four sibling leaves throws the missing-provider error there.
\<close>

theorem actions_outside_provider_does_not_throw:
  "\<not> isl (render None PostCardActions)
   \<and> render None PostCardActions = Inr [actionButtons]
   \<and> render None PostCardId = Inl (Error ''PostCardComponent.Title must be used within a PostCardComponent'')
   \<and> render None PostCardTitle = Inl (Error ''PostCardComponent.Title must be used within a PostCardComponent'')
   \<and> render None PostCardContent = Inl (Error ''PostCardComponent.Title must be used within a PostCardComponent'')
   \<and> render None PostCardAuthor = Inl (Error ''PostCardComponent.Title must be used within a PostCardComponent'')"
  by (simp add: usePostCardContext_def actionButtons_def)

text \<open>
  C3. Inside a provider for the record \<open>R\<close>, the author leaf renders nothing when
  \<^verbatim>\<open>R.isOnProfilePage\<close> is \<^verbatim>\<open>true\<close>, and the author line, whose text is
  \<^verbatim>\<open>By\<close> followed by \<^verbatim>\<open>R.user.name\<close>, when it is \<^verbatim>\<open>false\<close>.
\<close>

theorem author_fragment_by_flag:
  "(isOnProfilePage R = Some True \<longrightarrow>
      render (Some \<lparr>post = R\<rparr>) PostCardAuthor = Inr []
      \<and> render ctx (PostCardComponent R [PostCardAuthor]) = Inr [Element ''div'' ''w-full bg-white rounded-lg shadow-md hover:shadow-lg transition-shadow duration-300 overflow-hidden border border-gray-300'' []])
   \<and> (isOnProfilePage R = Some False \<longrightarrow>
      render (Some \<lparr>post = R\<rparr>) PostCardAuthor = Inr [authorLine (name (user R))]
      \<and> render ctx (PostCardComponent R [PostCardAuthor]) =
          Inr [Element ''div'' ''w-full bg-white rounded-lg shadow-md hover:shadow-lg transition-shadow duration-300 overflow-hidden border border-gray-300'' [authorLine (name (user R))]])
   \<and> textContent (authorLine n) = ''By '' @ n"
  by (simp add: usePostCardContext_def authorLine_def)

theorem author_fragment_by_flag_witness:
  "isOnProfilePage
     \<lparr>post_id = 1, title = ''T'', content = ''B'', user = \<lparr>user_id = 1, name = ''A''\<rparr>,
      isOnProfilePage = Some True\<rparr> = Some True
   \<and> render
       (Some \<lparr>post = \<lparr>post_id = 1, title = ''T'', content = ''B'',
                       user = \<lparr>user_id = 1, name = ''A''\<rparr>, isOnProfilePage = Some True\<rparr>\<rparr>)
       PostCardAuthor = Inr []
   \<and> isOnProfilePage
       \<lparr>post_id = 2, title = ''T'', content = ''B'', user = \<lparr>user_id = 2, name = ''A''\<rparr>,
        isOnProfilePage = Some False\<rparr> = Some False
   \<and> render
       (Some \<lparr>post = \<lparr>post_id = 2, title = ''T'', content = ''B'',
                       user = \<lparr>user_id = 2, name = ''A''\<rparr>, isOnProfilePage = Some False\<rparr>\<rparr>)
       PostCardAuthor = Inr [authorLine ''A'']
   \<and> textContent (authorLine ''A'') = ''By A''"
  using
    author_fragment_by_flag
      [of "\<lparr>post_id = 1, title = ''T'', content = ''B'', user = \<lparr>user_id = 1, name = ''A''\<rparr>,
            isOnProfilePage = Some True\<rparr>" None "''A''"]
    author_fragment_by_flag
      [of "\<lparr>post_id = 2, title = ''T'', content = ''B'', user = \<lparr>user_id = 2, name = ''A''\<rparr>,
            isOnProfilePage = Some False\<rparr>" None "''A''"]
  by (simp add: usePostCardContext_def authorLine_def)

text \<open>
  C4. The usage guard returns a present context value unchanged and throws on an
  absent one. That throw is the only failure of the mechanism: for well-formed
  markup, a render that throws was started outside every provider, reached one of
  the leaves calling the guard, and throws the guard's error; below a provider
  nothing throws; \<^verbatim>\<open>PostCardComponent\<close> around well-formed children throws nowhere,
  and \<^verbatim>\<open>AntiPostCard\<close> throws nowhere.
\<close>

theorem usage_guard_only_failure_path:
  "usePostCardContext (Some c) = Inr c
   \<and> usePostCardContext None = Inl (Error ''PostCardComponent.Title must be used within a PostCardComponent'')
   \<and> (wellFormed e \<longrightarrow> render ctx e = Inl err \<longrightarrow>
        ctx = None \<and> exposed e \<and> usePostCardContext ctx = Inl err)
   \<and> (wellFormed e \<longrightarrow> \<not> isl (render (Some c) e))
   \<and> (wellFormedChildren kids \<longrightarrow> \<not> isl (render ctx (PostCardComponent p kids)))
   \<and> \<not> isl (render ctx (AntiPostCard a))"
proof -
  have "render (Some \<lparr>post = p\<rparr>) (PostCardComponent p kids) = render ctx (PostCardComponent p kids)"
    by simp
  then have "\<not> isl (render ctx (PostCardComponent p kids))"
    using render_mounted [of "\<lparr>post = p\<rparr>" "PostCardComponent p kids"] by simp
  moreover have "\<not> isl (render (Some c) e)"
    by (simp add: render_mounted)
  ultimately show ?thesis
    using render_Inl [of ctx e err] by (simp add: usePostCardContext_def)
qed

theorem usage_guard_only_failure_path_witness:
  "wellFormed (Host ''div'' ''p-6'' [PostCardActions, PostCardTitle])
   \<and> render None (Host ''div'' ''p-6'' [PostCardActions, PostCardTitle]) = Inl (Error ''PostCardComponent.Title must be used within a PostCardComponent'')
   \<and> exposed (Host ''div'' ''p-6'' [PostCardActions, PostCardTitle])
   \<and> usePostCardContext None = Inl (Error ''PostCardComponent.Title must be used within a PostCardComponent'')
   \<and> \<not> isl (render
              (Some \<lparr>post = \<lparr>post_id = 3, title = ''T'', content = ''B'',
                              user = \<lparr>user_id = 3, name = ''A''\<rparr>,
                              isOnProfilePage = Some False\<rparr>\<rparr>)
              (Host ''div'' ''p-6'' [PostCardActions, PostCardTitle]))
   \<and> wellFormedChildren [PostCardId, Host ''div'' ''p-6'' [PostCardTitle, Host ''br'' [] []]]
   \<and> \<not> isl (render None
              (PostCardComponent
                 \<lparr>post_id = 3, title = ''T'', content = ''B'',
                  user = \<lparr>user_id = 3, name = ''A''\<rparr>, isOnProfilePage = Some False\<rparr>
                 [PostCardId, Host ''div'' ''p-6'' [PostCardTitle, Host ''br'' [] []]]))"
  using usage_guard_only_failure_path
          [where ctx = None
             and e = "Host ''div'' ''p-6'' [PostCardActions, PostCardTitle]"
             and err = "Error ''PostCardComponent.Title must be used within a PostCardComponent''"
             and c = "\<lparr>post = \<lparr>post_id = 3, title = ''T'', content = ''B'',
                                  user = \<lparr>user_id = 3, name = ''A''\<rparr>,
                                  isOnProfilePage = Some False\<rparr>\<rparr>"
             and kids = "[PostCardId, Host ''div'' ''p-6'' [PostCardTitle, Host ''br'' [] []]]"
             and p = "\<lparr>post_id = 3, title = ''T'', content = ''B'',
                       user = \<lparr>user_id = 3, name = ''A''\<rparr>, isOnProfilePage = Some False\<rparr>"]
  by (simp add: usePostCardContext_def validTagName_def voidElementTags_def)

text \<open>
  C6. The concrete scenario: for the record with id 3, title \<^verbatim>\<open>T\<close>, content \<^verbatim>\<open>B\<close>,
  user \<^verbatim>\<open>{id: 3, name: A}\<close> and \<^verbatim>\<open>isOnProfilePage: false\<close>, the provider with the
  children \<^verbatim>\<open>Id\<close>, \<^verbatim>\<open>Title\<close>, \<^verbatim>\<open>Content\<close>, \<^verbatim>\<open>Author\<close> mounts one card whose children
  show, in document order, the texts \<^verbatim>\<open>3\<close>, \<^verbatim>\<open>T\<close>, \<^verbatim>\<open>B\<close>, \<^verbatim>\<open>By A\<close>.
\<close>

theorem concrete_scenario_texts:
  "\<exists>card.
     render None
       (PostCardComponent
          \<lparr>post_id = 3, title = ''T'', content = ''B'', user = \<lparr>user_id = 3, name = ''A''\<rparr>,
           isOnProfilePage = Some False\<rparr>
          [PostCardId, PostCardTitle, PostCardContent, PostCardAuthor]) = Inr [card]
     \<and> map textContent (children card) = [''3'', ''T'', ''B'', ''By A'']"
  by (simp add: usePostCardContext_def showNumber_3)

text \<open>
  C7. The actions leaf renders its two static buttons, \<^verbatim>\<open>Read More\<close> and \<^verbatim>\<open>Like\<close>,
  whatever the ambient context is, hence whatever record the enclosing provider holds.
\<close>

theorem actions_fragment_static:
  "render ctx PostCardActions = Inr [actionButtons]
   \<and> render ctx (PostCardComponent R [PostCardActions]) =
       Inr [Element ''div'' ''w-full bg-white rounded-lg shadow-md hover:shadow-lg transition-shadow duration-300 overflow-hidden border border-gray-300'' [actionButtons]]
   \<and> map textContent (children actionButtons) = [''Read More'', ''Like'']"
  by (simp add: actionButtons_def)

text \<open>
  C9. When \<^verbatim>\<open>isOnProfilePage\<close> is omitted, the author leaf renders what it renders
  for the same record with the flag \<^verbatim>\<open>false\<close>: the author line
  \<^verbatim>\<open>By\<close> followed by \<^verbatim>\<open>user.name\<close>.
\<close>

theorem author_fragment_flag_omitted:
  "isOnProfilePage R = None \<Longrightarrow>
     render (Some \<lparr>post = R\<rparr>) PostCardAuthor =
       render (Some \<lparr>post = R\<lparr>isOnProfilePage := Some False\<rparr>\<rparr>) PostCardAuthor
     \<and> render (Some \<lparr>post = R\<rparr>) PostCardAuthor = Inr [authorLine (name (user R))]
     \<and> textContent (authorLine (name (user R))) = ''By '' @ name (user R)"
  by (simp add: usePostCardContext_def authorLine_def)

theorem author_fragment_flag_omitted_witness:
  "isOnProfilePage
     \<lparr>post_id = 5, title = ''T'', content = ''B'', user = \<lparr>user_id = 5, name = ''A''\<rparr>,
      isOnProfilePage = None\<rparr> = None
   \<and> render
       (Some \<lparr>post = \<lparr>post_id = 5, title = ''T'', content = ''B'',
                       user = \<lparr>user_id = 5, name = ''A''\<rparr>, isOnProfilePage = None\<rparr>\<rparr>)
       PostCardAuthor = Inr [authorLine ''A'']
   \<and> textContent (authorLine ''A'') = ''By A''"
  using
    author_fragment_flag_omitted
      [of "\<lparr>post_id = 5, title = ''T'', content = ''B'', user = \<lparr>user_id = 5, name = ''A''\<rparr>,
            isOnProfilePage = None\<rparr>"]
  by (simp add: usePostCardContext_def authorLine_def)

text \<open>
  C10. Whenever the usage guard fails, the error carries the one fixed message, which
  names \<^verbatim>\<open>PostCardComponent.Title\<close>; the identifier, body and author leaves throw that
  same message.
\<close>

theorem guard_message_fixed:
  "(usePostCardContext ctx = Inl err \<longrightarrow> err = Error ''PostCardComponent.Title must be used within a PostCardComponent'')
   \<and> render None PostCardId = Inl (Error ''PostCardComponent.Title must be used within a PostCardComponent'')
   \<and> render None PostCardContent = Inl (Error ''PostCardComponent.Title must be used within a PostCardComponent'')
   \<and> render None PostCardAuthor = Inl (Error ''PostCardComponent.Title must be used within a PostCardComponent'')"
  by (auto simp: usePostCardContext_def split: option.splits)

theorem guard_message_fixed_witness:
  "usePostCardContext None = Inl (Error ''PostCardComponent.Title must be used within a PostCardComponent'') \<and> Error ''PostCardComponent.Title must be used within a PostCardComponent'' = Error ''PostCardComponent.Title must be used within a PostCardComponent''"
  using guard_message_fixed [of None "Error ''PostCardComponent.Title must be used within a PostCardComponent''"]
  by (simp add: usePostCardContext_def)

text \<open>
  C2, as the code has it. For every record \<open>R\<close> and every list of children (any
  leaves, in any order, inside any host markup), the provider mounts one card whose
  content is the concatenation, in document order, of what each child mounts by
  itself under \<open>R\<close>; host markup passes through around its own children. What a leaf
  mounts is a function of \<open>R\<close> alone: the identifier leaf shows \<open>R\<close>'s id, the title
  leaf its title, the body leaf its content; the author leaf mounts the author line
  (\<^verbatim>\<open>By\<close> and \<open>R\<close>'s user name) when \<^verbatim>\<open>isOnProfilePage\<close> is not true, and nothing
  when it is true.
\<close>

theorem provider_leaves_reflect_record:
  "render ctx (PostCardComponent R ks) =
     Inr [Element ''div'' ''w-full bg-white rounded-lg shadow-md hover:shadow-lg transition-shadow duration-300 overflow-hidden border border-gray-300'' (concat (map (mounted \<lparr>post = R\<rparr>) ks))]
   \<and> render (Some c) e = Inr (mounted c e)
   \<and> mounted c (Host tag cls es) = [Element tag cls (concat (map (mounted c) es))]
   \<and> mounted c (JText s) = [Text s]
   \<and> map textContent (mounted \<lparr>post = R\<rparr> PostCardId) = [showNumber (post_id R)]
   \<and> map textContent (mounted \<lparr>post = R\<rparr> PostCardTitle) = [title R]
   \<and> map textContent (mounted \<lparr>post = R\<rparr> PostCardContent) = [content R]
   \<and> mounted \<lparr>post = R\<rparr> PostCardAuthor =
       (if truthy (isOnProfilePage R) then [] else [authorLine (name (user R))])
   \<and> textContent (authorLine (name (user R))) = ''By '' @ name (user R)"
  by (simp add: renderChildren_mounted render_mounted mounted_markup)
     (simp add: mounted_def usePostCardContext_def authorLine_def)

text \<open>
  C2 as stated fails for a record whose \<^verbatim>\<open>isOnProfilePage\<close> is true: the author
  leaf is included, and the card is empty; the author's name is nowhere in it.
\<close>

theorem author_leaf_included_but_no_fragment:
  "render None
     (PostCardComponent
        \<lparr>post_id = 1, title = ''T'', content = ''B'', user = \<lparr>user_id = 1, name = ''A''\<rparr>,
         isOnProfilePage = Some True\<rparr>
        [PostCardAuthor]) = Inr [Element ''div'' ''w-full bg-white rounded-lg shadow-md hover:shadow-lg transition-shadow duration-300 overflow-hidden border border-gray-300'' []]
   \<and> \<not> mounts None
       (PostCardComponent
          \<lparr>post_id = 1, title = ''T'', content = ''B'', user = \<lparr>user_id = 1, name = ''A''\<rparr>,
           isOnProfilePage = Some True\<rparr>
          [PostCardAuthor])
       (Text ''A'')"
  by (simp add: usePostCardContext_def mounts_def)

text \<open>
  C5. A provider's card is the same whatever context surrounds it. Two providers
  side by side mount exactly the two cards each mounts alone; replacing the record
  and children of one leaves the card of the other as it was (both ways); with the
  identifier leaf in each, the first card shows the first record's id and the second
  card the second's. On the page itself the two cards show 3 and 4, in this order.
\<close>

theorem sibling_providers_isolated:
  "render ctx (PostCardComponent R ks) = render None (PostCardComponent R ks)
   \<and> (\<exists>d1 d2.
        render None (PostCardComponent R1 ks1) = Inr [d1]
        \<and> render None (PostCardComponent R2 ks2) = Inr [d2]
        \<and> render ctx (Host tag cls [PostCardComponent R1 ks1, PostCardComponent R2 ks2]) =
            Inr [Element tag cls [d1, d2]])
   \<and> (\<exists>d1 d2 d2'.
        render ctx (Host tag cls [PostCardComponent R1 ks1, PostCardComponent R2 ks2]) =
          Inr [Element tag cls [d1, d2]]
        \<and> render ctx (Host tag cls [PostCardComponent R1 ks1, PostCardComponent R2' ks2']) =
            Inr [Element tag cls [d1, d2']])
   \<and> (\<exists>d1 d1' d2.
        render ctx (Host tag cls [PostCardComponent R1 ks1, PostCardComponent R2 ks2]) =
          Inr [Element tag cls [d1, d2]]
        \<and> render ctx (Host tag cls [PostCardComponent R1' ks1', PostCardComponent R2 ks2]) =
            Inr [Element tag cls [d1', d2]])
   \<and> (\<exists>d1 d2.
        render ctx
          (Host tag cls [PostCardComponent R1 [PostCardId], PostCardComponent R2 [PostCardId]]) =
          Inr [Element tag cls [d1, d2]]
        \<and> textContent d1 = showNumber (post_id R1)
        \<and> textContent d2 = showNumber (post_id R2))
   \<and> (\<exists>heading antis spacer card3 body3 card4 body4.
        render None App =
          Inr [Element ''div'' ''min-h-screen bg-white flex flex-col items-center justify-center p-8''
                 [heading, antis, spacer,
                  Element ''div'' ''w-full max-w-4xl flex gap-6 mt-10''
                    [Element ''div'' ''w-full max-w-md'' [card3],
                     Element ''div'' ''w-full max-w-md'' [card4]]]]
        \<and> map textContent (children card3) = [''3'', body3]
        \<and> map textContent (children card4) = [''4'', body4])"
proof -
  have general:
    "render ctx (PostCardComponent R ks) = render None (PostCardComponent R ks)
     \<and> (\<exists>d1 d2.
          render None (PostCardComponent R1 ks1) = Inr [d1]
          \<and> render None (PostCardComponent R2 ks2) = Inr [d2]
          \<and> render ctx (Host tag cls [PostCardComponent R1 ks1, PostCardComponent R2 ks2]) =
              Inr [Element tag cls [d1, d2]])
     \<and> (\<exists>d1 d2 d2'.
          render ctx (Host tag cls [PostCardComponent R1 ks1, PostCardComponent R2 ks2]) =
            Inr [Element tag cls [d1, d2]]
          \<and> render ctx (Host tag cls [PostCardComponent R1 ks1, PostCardComponent R2' ks2']) =
              Inr [Element tag cls [d1, d2']])
     \<and> (\<exists>d1 d1' d2.
          render ctx (Host tag cls [PostCardComponent R1 ks1, PostCardComponent R2 ks2]) =
            Inr [Element tag cls [d1, d2]]
          \<and> render ctx (Host tag cls [PostCardComponent R1' ks1', PostCardComponent R2 ks2]) =
              Inr [Element tag cls [d1', d2]])
     \<and> (\<exists>d1 d2.
          render ctx
            (Host tag cls [PostCardComponent R1 [PostCardId], PostCardComponent R2 [PostCardId]]) =
            Inr [Element tag cls [d1, d2]]
          \<and> textContent d1 = showNumber (post_id R1)
          \<and> textContent d2 = showNumber (post_id R2))"
    by (simp add: renderChildren_mounted) (simp add: mounted_def usePostCardContext_def)
  from general App_cards show ?thesis
    by blast
qed

text \<open>
  C8, as the code has it. In \<^verbatim>\<open>AntiPostCard\<close> the author line is rendered exactly
  when \<^verbatim>\<open>isOnProfilePage\<close> is not true, that is false or omitted, and the pair of
  action buttons exactly when \<^verbatim>\<open>shouldDisplayButtons\<close> is true; changing
  \<^verbatim>\<open>shouldDisplayButtons\<close> does not change whether the author line is rendered, and
  changing \<^verbatim>\<open>isOnProfilePage\<close> does not change whether the buttons are.
\<close>

theorem anti_post_card_flags_orthogonal:
  "mounts ctx (AntiPostCard p) (authorLine (name (user p))) = (isOnProfilePage p \<noteq> Some True)
   \<and> mounts ctx (AntiPostCard p) actionButtons = shouldDisplayButtons p
   \<and> mounts ctx (AntiPostCard (p\<lparr>shouldDisplayButtons := b\<rparr>)) (authorLine (name (user p))) =
       mounts ctx (AntiPostCard p) (authorLine (name (user p)))
   \<and> mounts ctx (AntiPostCard (p\<lparr>isOnProfilePage := f\<rparr>)) actionButtons =
       mounts ctx (AntiPostCard p) actionButtons"
proof (cases "isOnProfilePage p")
  case None
  then show ?thesis
    by (simp add: mounts_def andAlso_def authorLine_def actionButtons_def)
next
  case (Some flag)
  then show ?thesis
    by (cases flag) (simp_all add: mounts_def andAlso_def authorLine_def actionButtons_def)
qed

text \<open>
  C8 as stated fails for a record that omits \<^verbatim>\<open>isOnProfilePage\<close>: the flag is
  not false, and the author line is rendered.
\<close>

theorem anti_post_card_author_line_at_omitted_flag:
  "isOnProfilePage
     \<lparr>post_id = 1, title = ''T'', content = ''B'', user = \<lparr>user_id = 1, name = ''A''\<rparr>,
      isOnProfilePage = None, shouldDisplayButtons = False\<rparr> \<noteq> Some False
   \<and> mounts None
       (AntiPostCard
          \<lparr>post_id = 1, title = ''T'', content = ''B'', user = \<lparr>user_id = 1, name = ''A''\<rparr>,
           isOnProfilePage = None, shouldDisplayButtons = False\<rparr>)
       (authorLine ''A'')"
  by (simp add: mounts_def andAlso_def authorLine_def)

end
